theory Spec2Isabelle
  imports Main
begin

section \<open>Configuration (src/settings.py)\<close>

text \<open>
  The auth part of \<^verbatim>\<open>Settings\<close>. The secret key and the salt have no default, the
  other three default to HS256, one day and sub. The values of \<^verbatim>\<open>SecretStr\<close> fields are
  kept as plain strings: \<^verbatim>\<open>get_secret_value\<close> is the identity on them.
\<close>

record settings =
  AUTH_SECRET_KEY :: string
  AUTH_PASSWORD_SALT :: string
  AUTH_HASH_ALGORITHM :: string
  AUTH_ACCESS_TOKEN_EXPIRE_MINUTES :: int
  AUTH_ACCESS_TOKEN_USERNAME_FIELD :: string

definition default_settings :: "string \<Rightarrow> string \<Rightarrow> settings" where
  "default_settings secret_key password_salt =
     \<lparr>AUTH_SECRET_KEY = secret_key,
      AUTH_PASSWORD_SALT = password_salt,
      AUTH_HASH_ALGORITHM = ''HS256'',
      AUTH_ACCESS_TOKEN_EXPIRE_MINUTES = 60 * 24,
      AUTH_ACCESS_TOKEN_USERNAME_FIELD = ''sub''\<rparr>"

section \<open>Domain data (src/domain/user/dtos.py, errors.py)\<close>

record CreateUserDTO =
  create_username :: string
  create_password :: string

record LoginUserDTO =
  login_username :: string
  login_password :: string

record UserDTO =
  username :: string
  password_hash :: string

datatype user_error =
    UserAlreadyExistsError
  | UserDoesNotExistError
  | InvalidPasswordError
  | UnAuthorizedUserError

section \<open>The primitives of the libraries\<close>

text \<open>
  \<^verbatim>\<open>hashlib.sha256\<close> and the signing algorithm of the JWT library are not code of the
  repository. They are parameters of the model: every function below that hashes or signs
  takes them as its first argument, and every theorem holds for all of them.
  \<^item> \<open>sha256_hexdigest bs\<close> is \<^verbatim>\<open>sha256(bs).hexdigest()\<close>;
  \<^item> \<open>sign alg key p\<close> is the signature the library puts on the claims \<open>p\<close> under the
    algorithm named \<open>alg\<close> and the key \<open>key\<close>.
\<close>

record payload =
  claims :: "string \<rightharpoonup> string"
  exp :: "int option"

record primitives =
  sha256_hexdigest :: "string \<Rightarrow> string"
  sign :: "string \<Rightarrow> string \<Rightarrow> payload \<Rightarrow> string"

section \<open>Tokens (the JWT library)\<close>

text \<open>
  Modelled from the spec: \<^verbatim>\<open>jwt.encode\<close> and \<^verbatim>\<open>jwt.decode\<close> belong to an external
  library that is not under src/. The spec describes the token as a compact signed string
  with a subject claim (its name is configured) that holds the username and a claim exp
  that holds the Unix timestamp of expiry, valid only if its signature verifies against
  the secret key and its exp instant has not passed.

  A token string is represented by what the library reads in it: either nothing
  (\<open>Malformed\<close>, with the text), or the algorithm named in its header, its claims and its
  signature. The claims are the text-valued ones, by name, and the registered numeric claim
  exp kept apart; the configured subject field is taken to be a name other than exp.
  Instants are whole seconds since the epoch, which is what the library writes into exp
  (it drops the fraction of \<^verbatim>\<open>datetime.now(UTC)\<close>) and what it compares.
\<close>

datatype token =
    Malformed string
  | Jws string payload string

datatype jwt_error =
    DecodeError
  | InvalidAlgorithmError
  | InvalidSignatureError
  | ExpiredSignatureError

definition jwt_encode :: "primitives \<Rightarrow> payload \<Rightarrow> string \<Rightarrow> string \<Rightarrow> token" where
  "jwt_encode lib data key algorithm = Jws algorithm data (sign lib algorithm key data)"

text \<open>
  Decoding checks, in the library's order: the shape of the string, that the header's
  algorithm is one of those the caller allows, the signature, and the expiry (a token
  without exp does not expire; one whose exp is the present instant has expired). Each
  failure is a subclass of \<^verbatim>\<open>jwt.InvalidTokenError\<close>.
\<close>

definition jwt_decode ::
  "primitives \<Rightarrow> int \<Rightarrow> token \<Rightarrow> string \<Rightarrow> string list \<Rightarrow> jwt_error + payload" where
  "jwt_decode lib now tok key algorithms =
     (case tok of
        Malformed raw \<Rightarrow> Inl DecodeError
      | Jws alg data signature \<Rightarrow>
          if alg \<notin> set algorithms then Inl InvalidAlgorithmError
          else if signature \<noteq> sign lib alg key data then Inl InvalidSignatureError
          else (case exp data of
                  None \<Rightarrow> Inr data
                | Some e \<Rightarrow> if e \<le> now then Inl ExpiredSignatureError else Inr data))"

section \<open>The session and the repository (src/infra)\<close>

text \<open>
  The table users has the primary key username and the column password_hash
  (src/infra/user/models.py): a map from the key to the hash.
\<close>

record UserModel =
  model_username :: string
  model_password_hash :: string

type_synonym users_table = "string \<rightharpoonup> string"

text \<open>
  Modelled from the spec: the SQLAlchemy session (\<^verbatim>\<open>get_one\<close>, \<^verbatim>\<open>merge\<close>, \<^verbatim>\<open>flush\<close>,
  \<^verbatim>\<open>rollback\<close>) is an external library that is not under src/. The spec asks of the store
  that a lookup returns the record or nothing and that a duplicate key is rejected at write
  time; src/infra/db.py adds that all operations of a session make one transaction, that
  flush persists inside it and that nothing commits before the request ends.

  A session is the rows its transaction sees (\<open>rows\<close>) and the rows that are committed
  (\<open>committed\<close>), to which a rollback returns. The functions of the session are those of
  one thread of control; what another transaction commits in the middle of a create comes
  in below, as a parameter.
\<close>

record session =
  committed :: users_table
  rows :: users_table

datatype db_error = NoResultFound | IntegrityError

datatype pending = Insert UserModel | Update UserModel

definition get_one :: "session \<Rightarrow> string \<Rightarrow> db_error + UserModel" where
  "get_one s entity_id =
     (case rows s entity_id of
        None \<Rightarrow> Inl NoResultFound
      | Some h \<Rightarrow> Inr \<lparr>model_username = entity_id, model_password_hash = h\<rparr>)"

text \<open>
  \<^verbatim>\<open>merge\<close> loads the row with the entity's key: when there is one its columns are
  overwritten at the next flush, otherwise the entity is inserted then. Every merge of the
  repository is followed at once by its flush, so the pending write is handed from the one
  to the other instead of being kept in the session.
\<close>

definition merge :: "session \<Rightarrow> UserModel \<Rightarrow> pending" where
  "merge s entity =
     (case rows s (model_username entity) of
        None \<Rightarrow> Insert entity
      | Some h \<Rightarrow> Update entity)"

definition flush :: "session \<Rightarrow> pending \<Rightarrow> db_error + session" where
  "flush s w =
     (case w of
        Insert entity \<Rightarrow>
          if model_username entity \<in> dom (rows s) then Inl IntegrityError
          else Inr (s\<lparr>rows := (rows s)(model_username entity \<mapsto> model_password_hash entity)\<rparr>)
      | Update entity \<Rightarrow>
          Inr (s\<lparr>rows := (rows s)(model_username entity \<mapsto> model_password_hash entity)\<rparr>))"

definition rollback :: "session \<Rightarrow> session" where
  "rollback s = s\<lparr>rows := committed s\<rparr>"

subsection \<open>UserRepository (src/infra/user/repos.py) over BaseRepository\<close>

definition map_dto_to_model :: "UserDTO \<Rightarrow> UserModel" where
  "map_dto_to_model dto =
     \<lparr>model_username = username dto, model_password_hash = password_hash dto\<rparr>"

definition map_model_to_dto :: "UserModel \<Rightarrow> UserDTO" where
  "map_model_to_dto model =
     \<lparr>username = model_username model, password_hash = model_password_hash model\<rparr>"

definition get_by_id :: "session \<Rightarrow> string \<Rightarrow> UserDTO option" where
  "get_by_id s entity_id =
     (case get_one s entity_id of
        Inr entity \<Rightarrow> Some (map_model_to_dto entity)
      | Inl e \<Rightarrow> None)"

text \<open>
  \<^verbatim>\<open>BaseRepository.create\<close> (here \<open>repo_create\<close>), with the exception class
  UserAlreadyExistsError that UserRepository configures. The result is the value returned
  or the error raised, and the session as the call leaves it. The only error of \<open>get_one\<close>
  is NoResultFound and the only error of \<open>flush\<close> is IntegrityError, the ones the source
  catches.
\<close>

definition repo_create :: "session \<Rightarrow> UserDTO \<Rightarrow> (user_error + UserDTO) \<times> session" where
  "repo_create s dto =
     (let entity = map_dto_to_model dto in
      case get_by_id s (model_username entity) of
        Some existed \<Rightarrow> (Inl UserAlreadyExistsError, s)
      | None \<Rightarrow>
          (case flush s (merge s entity) of
             Inr s' \<Rightarrow> (Inr (map_model_to_dto entity), s')
           | Inl e \<Rightarrow> (Inl UserAlreadyExistsError, rollback s)))"

definition repo_find_by_username :: "session \<Rightarrow> string \<Rightarrow> UserDTO option" where
  "repo_find_by_username s name = get_by_id s name"

subsection \<open>A duplicate that arrives at write time\<close>

text \<open>
  Modelled from the spec: two registrations of one username race on the uniqueness
  constraint of the store, and the one that loses must meet the duplicate at write time,
  not at its pre-check. What the other transactions do is not code of the repository; it is
  a parameter. \<open>others\<close> are the rows that other transactions commit after this call
  has looked its key up and merged its entity, and before it flushes: they are committed,
  and this transaction sees them from then on.

  \<open>repo_create_env\<close> is \<^verbatim>\<open>BaseRepository.create\<close> with this step between the merge and the
  flush, and nothing else changed; with no such rows it is \<open>repo_create\<close>.
\<close>

definition concurrent_commit :: "users_table \<Rightarrow> session \<Rightarrow> session" where
  "concurrent_commit others s =
     s\<lparr>committed := committed s ++ others, rows := rows s ++ others\<rparr>"

definition repo_create_env ::
  "users_table \<Rightarrow> session \<Rightarrow> UserDTO \<Rightarrow> (user_error + UserDTO) \<times> session" where
  "repo_create_env others s dto =
     (let entity = map_dto_to_model dto in
      case get_by_id s (model_username entity) of
        Some existed \<Rightarrow> (Inl UserAlreadyExistsError, s)
      | None \<Rightarrow>
          (let w = merge s entity; s1 = concurrent_commit others s in
           case flush s1 w of
             Inr s' \<Rightarrow> (Inr (map_model_to_dto entity), s')
           | Inl e \<Rightarrow> (Inl UserAlreadyExistsError, rollback s1)))"

section \<open>The aggregate User (src/domain/user/user.py)\<close>

text \<open>
  The methods of \<^verbatim>\<open>User\<close> keep their names; the private ones lose the leading underscore,
  which a name cannot start with here.
\<close>

definition get_password_hash :: "primitives \<Rightarrow> settings \<Rightarrow> string \<Rightarrow> string" where
  "get_password_hash lib cfg password =
     sha256_hexdigest lib (password @ AUTH_PASSWORD_SALT cfg)"

definition verify_password :: "primitives \<Rightarrow> settings \<Rightarrow> string \<Rightarrow> string \<Rightarrow> bool" where
  "verify_password lib cfg password_to_check actual_password_hash =
     (get_password_hash lib cfg password_to_check = actual_password_hash)"

definition create_access_token :: "primitives \<Rightarrow> settings \<Rightarrow> int \<Rightarrow> string \<Rightarrow> token" where
  "create_access_token lib cfg now name =
     jwt_encode lib
       \<lparr>claims = [AUTH_ACCESS_TOKEN_USERNAME_FIELD cfg \<mapsto> name],
        exp = Some (now + 60 * AUTH_ACCESS_TOKEN_EXPIRE_MINUTES cfg)\<rparr>
       (AUTH_SECRET_KEY cfg) (AUTH_HASH_ALGORITHM cfg)"

definition find_by_username :: "session \<Rightarrow> string \<Rightarrow> UserDTO option" where
  "find_by_username s name = repo_find_by_username s name"

text \<open>
  The three operations return the value or the domain error, and the session as they
  leave it. \<open>now\<close> is the instant of the call.
\<close>

definition create ::
  "primitives \<Rightarrow> settings \<Rightarrow> session \<Rightarrow> CreateUserDTO \<Rightarrow> (user_error + UserDTO) \<times> session" where
  "create lib cfg s create_data =
     (case find_by_username s (create_username create_data) of
        Some existed_user \<Rightarrow> (Inl UserAlreadyExistsError, s)
      | None \<Rightarrow>
          repo_create s
            \<lparr>username = create_username create_data,
             password_hash = get_password_hash lib cfg (create_password create_data)\<rparr>)"

definition login ::
  "primitives \<Rightarrow> settings \<Rightarrow> int \<Rightarrow> session \<Rightarrow> LoginUserDTO \<Rightarrow> (user_error + token) \<times> session" where
  "login lib cfg now s login_data =
     (case find_by_username s (login_username login_data) of
        None \<Rightarrow> (Inl UserDoesNotExistError, s)
      | Some user \<Rightarrow>
          if \<not> verify_password lib cfg (login_password login_data) (password_hash user)
          then (Inl InvalidPasswordError, s)
          else (Inr (create_access_token lib cfg now (login_username login_data)), s))"

text \<open>
  \<^verbatim>\<open>get_current\<close>: any \<^verbatim>\<open>jwt.InvalidTokenError\<close> becomes UserDoesNotExistError;
  \<^verbatim>\<open>not username\<close> holds for a missing claim and for the empty string. What the method
  prints to the console is left out.
\<close>

definition get_current ::
  "primitives \<Rightarrow> settings \<Rightarrow> int \<Rightarrow> session \<Rightarrow> token \<Rightarrow> (user_error + UserDTO) \<times> session" where
  "get_current lib cfg now s tok =
     (case jwt_decode lib now tok (AUTH_SECRET_KEY cfg) [AUTH_HASH_ALGORITHM cfg] of
        Inl e \<Rightarrow> (Inl UserDoesNotExistError, s)
      | Inr data \<Rightarrow>
          (case claims data (AUTH_ACCESS_TOKEN_USERNAME_FIELD cfg) of
             None \<Rightarrow> (Inl UserDoesNotExistError, s)
           | Some name \<Rightarrow>
               if name = [] then (Inl UserDoesNotExistError, s)
               else (case find_by_username s name of
                       None \<Rightarrow> (Inl UserDoesNotExistError, s)
                     | Some user \<Rightarrow> (Inr user, s))))"

section \<open>The login handlers (src/app/auth/handlers.py)\<close>

text \<open>
  A handler returns its response, raises an \<^verbatim>\<open>HTTPException\<close>, or lets an exception of the
  domain through (\<open>Unhandled\<close>). Both login handlers catch UserAlreadyExistsError and
  InvalidPasswordError, in this order, and nothing else.
\<close>

record OAuth2PasswordRequestForm =
  form_username :: string
  form_password :: string

record LoginRequest =
  request_username :: string
  request_password :: string

record LoginResponse =
  access_token :: token
  token_type :: string

record HTTPException =
  status_code :: nat
  detail :: string
  headers :: "(string \<times> string) list"

datatype 'a outcome = Returned 'a | Raised HTTPException | Unhandled user_error

definition oauth2_login ::
  "primitives \<Rightarrow> settings \<Rightarrow> int \<Rightarrow> session \<Rightarrow> OAuth2PasswordRequestForm \<Rightarrow>
     LoginResponse outcome \<times> session" where
  "oauth2_login lib cfg now s form_data =
     (case login lib cfg now s
             \<lparr>login_username = form_username form_data,
              login_password = form_password form_data\<rparr> of
        (Inr tok, s') \<Rightarrow> (Returned \<lparr>access_token = tok, token_type = ''bearer''\<rparr>, s')
      | (Inl e, s') \<Rightarrow>
          (if e = UserAlreadyExistsError
           then Raised \<lparr>status_code = 400,
                        detail = ''User with this username does not exist.'',
                        headers = []\<rparr>
           else if e = InvalidPasswordError
           then Raised \<lparr>status_code = 401,
                        detail = ''Incorrect username or password'',
                        headers = [(''WWW-Authenticate'', ''Bearer'')]\<rparr>
           else Unhandled e, s'))"

definition json_login ::
  "primitives \<Rightarrow> settings \<Rightarrow> int \<Rightarrow> session \<Rightarrow> LoginRequest \<Rightarrow>
     LoginResponse outcome \<times> session" where
  "json_login lib cfg now s login_data =
     (case login lib cfg now s
             \<lparr>login_username = request_username login_data,
              login_password = request_password login_data\<rparr> of
        (Inr tok, s') \<Rightarrow> (Returned \<lparr>access_token = tok, token_type = ''bearer''\<rparr>, s')
      | (Inl e, s') \<Rightarrow>
          (if e = UserAlreadyExistsError
           then Raised \<lparr>status_code = 400,
                        detail = ''User with this username does not exist.'',
                        headers = []\<rparr>
           else if e = InvalidPasswordError
           then Raised \<lparr>status_code = 401,
                        detail = ''Incorrect username or password'',
                        headers = [(''WWW-Authenticate'', ''Bearer'')]\<rparr>
           else Unhandled e, s'))"

section \<open>Runs of the aggregate\<close>

text \<open>
  The states of the store that the aggregate produces: those reached from the empty store
  by a sequence of its three operations, each with its arguments and, where it reads the
  clock, its instant.
\<close>

datatype request =
    Register CreateUserDTO
  | Login int LoginUserDTO
  | GetCurrent int token

definition serve :: "primitives \<Rightarrow> settings \<Rightarrow> session \<Rightarrow> request \<Rightarrow> session" where
  "serve lib cfg s req =
     (case req of
        Register d \<Rightarrow> snd (create lib cfg s d)
      | Login now d \<Rightarrow> snd (login lib cfg now s d)
      | GetCurrent now tok \<Rightarrow> snd (get_current lib cfg now s tok))"

definition run :: "primitives \<Rightarrow> settings \<Rightarrow> session \<Rightarrow> request list \<Rightarrow> session" where
  "run lib cfg s reqs = foldl (serve lib cfg) s reqs"

definition empty_session :: session where
  "empty_session = \<lparr>committed = Map.empty, rows = Map.empty\<rparr>"

section \<open>Concrete inputs\<close>

text \<open>
  The theorems below hold for every choice of the primitives. A closed example needs one:
  \<open>example_lib\<close> has a digest and a signature that are easy to read. No example depends on
  more than that the digests of two different texts differ. The settings are the defaults
  with a key and a salt; \<open>example_session\<close> holds dave, registered with the password right,
  and a record under the empty username, registered with the password pw.
\<close>

definition example_digest :: "string \<Rightarrow> string" where
  "example_digest bs = ''digest:'' @ bs"

definition example_sign :: "string \<Rightarrow> string \<Rightarrow> payload \<Rightarrow> string" where
  "example_sign alg key p = ''signed:'' @ alg @ '':'' @ key"

definition example_lib :: primitives where
  "example_lib = \<lparr>sha256_hexdigest = example_digest, sign = example_sign\<rparr>"

definition example_settings :: settings where
  "example_settings = default_settings ''secret'' ''salt''"

definition example_session :: session where
  "example_session =
     \<lparr>committed = Map.empty,
      rows = [''dave'' \<mapsto> example_digest ''rightsalt'', [] \<mapsto> example_digest ''pwsalt'']\<rparr>"

definition dave_token :: token where
  "dave_token = create_access_token example_lib example_settings 0 ''dave''"

text \<open>
  Two sessions for the repository alone: in \<open>alice_session\<close> the transaction has flushed
  the row of alice and not committed it, in \<open>dave_committed\<close> it has written nothing yet
  and sees the committed row of dave.
\<close>

definition alice_session :: session where
  "alice_session = empty_session\<lparr>rows := [''alice'' \<mapsto> ''h1'']\<rparr>"

definition dave_committed :: session where
  "dave_committed = \<lparr>committed = [''dave'' \<mapsto> ''h0''], rows = [''dave'' \<mapsto> ''h0'']\<rparr>"

section \<open>What the operations compute\<close>

text \<open>The repository and the aggregate, with the calls between them unfolded.\<close>

lemma get_by_id_eq:
  "get_by_id s u = map_option (\<lambda>h. \<lparr>username = u, password_hash = h\<rparr>) (rows s u)"
  by (simp add: get_by_id_def get_one_def map_model_to_dto_def split: option.split)

lemma find_by_username_eq:
  "find_by_username s u = map_option (\<lambda>h. \<lparr>username = u, password_hash = h\<rparr>) (rows s u)"
  by (simp add: find_by_username_def repo_find_by_username_def get_by_id_eq)

text \<open>
  With one thread of control the flush that follows a merge never meets a duplicate key:
  the merge has loaded the row if there is one. So \<open>repo_create\<close> fails at its own lookup
  only, and then leaves the session as it found it.
\<close>

lemma flush_merge:
  "flush s (merge s entity) =
     Inr (s\<lparr>rows := (rows s)(model_username entity \<mapsto> model_password_hash entity)\<rparr>)"
  by (simp add: flush_def merge_def domIff split: option.split)

lemma repo_create_eq:
  "repo_create s dto =
     (if rows s (username dto) = None
      then (Inr dto, s\<lparr>rows := (rows s)(username dto \<mapsto> password_hash dto)\<rparr>)
      else (Inl UserAlreadyExistsError, s))"
  by (auto simp add: repo_create_def Let_def get_by_id_eq flush_merge map_dto_to_model_def
      map_model_to_dto_def split: option.split)

lemma repo_create_failure:
  assumes "repo_create s dto = (Inl e, s')"
  shows "e = UserAlreadyExistsError \<and> s' = s \<and> rows s (username dto) \<noteq> None"
  using assms by (auto simp add: repo_create_eq split: if_splits)

text \<open>
  With rows arriving at write time the flush can meet a duplicate: then, and only then, the
  rollback of \<^verbatim>\<open>BaseRepository.create\<close> runs.
\<close>

lemma concurrent_commit_empty: "concurrent_commit Map.empty s = s"
  by (simp add: concurrent_commit_def)

lemma repo_create_env_empty: "repo_create_env Map.empty s dto = repo_create s dto"
  by (simp add: repo_create_env_def repo_create_def concurrent_commit_empty Let_def
      split: option.split)

lemma repo_create_env_eq:
  "repo_create_env others s dto =
     (if rows s (username dto) \<noteq> None then (Inl UserAlreadyExistsError, s)
      else if username dto \<in> dom others
      then (Inl UserAlreadyExistsError, rollback (concurrent_commit others s))
      else (Inr dto,
            (concurrent_commit others s)
              \<lparr>rows := (rows (concurrent_commit others s))
                 (username dto \<mapsto> password_hash dto)\<rparr>))"
  by (auto simp add: repo_create_env_def Let_def get_by_id_eq merge_def flush_def
      concurrent_commit_def map_dto_to_model_def map_model_to_dto_def domIff map_add_def
      split: option.splits)

lemma rollback_clean:
  assumes "rows s = committed s"
  shows "rollback (concurrent_commit others s) = concurrent_commit others s"
  using assms by (simp add: rollback_def concurrent_commit_def)

lemma create_eq:
  "create lib cfg s d =
     (if rows s (create_username d) = None
      then (Inr \<lparr>username = create_username d,
                 password_hash = get_password_hash lib cfg (create_password d)\<rparr>,
            s\<lparr>rows := (rows s)(create_username d \<mapsto>
                 get_password_hash lib cfg (create_password d))\<rparr>)
      else (Inl UserAlreadyExistsError, s))"
  by (auto simp add: create_def find_by_username_eq repo_create_eq split: option.split)

lemma login_eq:
  "login lib cfg now s d =
     (case rows s (login_username d) of
        None \<Rightarrow> (Inl UserDoesNotExistError, s)
      | Some h \<Rightarrow>
          if get_password_hash lib cfg (login_password d) = h
          then (Inr (create_access_token lib cfg now (login_username d)), s)
          else (Inl InvalidPasswordError, s))"
  by (simp add: login_def find_by_username_eq verify_password_def split: option.split)

lemma jwt_decode_Jws:
  "jwt_decode lib now (Jws a p sg) key algs =
     (if a \<notin> set algs then Inl InvalidAlgorithmError
      else if sg \<noteq> sign lib a key p then Inl InvalidSignatureError
      else (case exp p of
              None \<Rightarrow> Inr p
            | Some e \<Rightarrow> if e \<le> now then Inl ExpiredSignatureError else Inr p))"
  by (simp add: jwt_decode_def)

lemma jwt_decode_Malformed: "jwt_decode lib now (Malformed raw) key algs = Inl DecodeError"
  by (simp add: jwt_decode_def)

text \<open>A token decodes exactly when it is one that \<open>jwt_encode\<close> makes and has not expired.\<close>

lemma jwt_decode_Inr:
  "jwt_decode lib now tok key algs = Inr p \<longleftrightarrow>
     (\<exists>a. tok = jwt_encode lib p key a \<and> a \<in> set algs \<and>
          (case exp p of None \<Rightarrow> True | Some e \<Rightarrow> now < e))"
  by (cases tok) (auto simp add: jwt_decode_def jwt_encode_def split: option.splits)

lemma get_current_eq:
  "get_current lib cfg now s tok =
     (case jwt_decode lib now tok (AUTH_SECRET_KEY cfg) [AUTH_HASH_ALGORITHM cfg] of
        Inl e \<Rightarrow> (Inl UserDoesNotExistError, s)
      | Inr data \<Rightarrow>
          (case claims data (AUTH_ACCESS_TOKEN_USERNAME_FIELD cfg) of
             None \<Rightarrow> (Inl UserDoesNotExistError, s)
           | Some name \<Rightarrow>
               if name = [] then (Inl UserDoesNotExistError, s)
               else (case rows s name of
                       None \<Rightarrow> (Inl UserDoesNotExistError, s)
                     | Some h \<Rightarrow> (Inr \<lparr>username = name, password_hash = h\<rparr>, s))))"
  by (simp add: get_current_def find_by_username_eq split: sum.split option.split)

lemma get_current_error:
  assumes "fst (get_current lib cfg now s tok) = Inl e"
  shows "e = UserDoesNotExistError"
  using assms by (auto simp add: get_current_eq split: sum.splits option.splits if_splits)

lemma snd_get_current: "snd (get_current lib cfg now s tok) = s"
  by (simp add: get_current_eq split: sum.split option.split)

lemma snd_login: "snd (login lib cfg now s d) = s"
  by (simp add: login_eq split: option.split)

text \<open>
  The hash that a registration stores is the digest of the password followed by the salt,
  the same for the same password and salt.
\<close>

lemma registered_hash_is_salted_digest:
  assumes "create lib cfg s \<lparr>create_username = U, create_password = P\<rparr> = (Inr user, s')"
  shows "password_hash user = sha256_hexdigest lib (P @ AUTH_PASSWORD_SALT cfg) \<and>
         rows s' U = Some (sha256_hexdigest lib (P @ AUTH_PASSWORD_SALT cfg))"
  using assms by (auto simp add: create_eq get_password_hash_def split: if_splits)

text \<open>The concrete inputs, evaluated.\<close>

lemmas example_defs =
  example_lib_def example_settings_def default_settings_def empty_session_def
  example_session_def get_password_hash_def example_digest_def example_sign_def

lemma dave_token_eq:
  "dave_token = Jws ''HS256'' \<lparr>claims = [''sub'' \<mapsto> ''dave''], exp = Some 86400\<rparr>
     (example_sign ''HS256'' ''secret'' \<lparr>claims = [''sub'' \<mapsto> ''dave''], exp = Some 86400\<rparr>)"
  by (simp add: dave_token_def create_access_token_def jwt_encode_def example_lib_def
      example_settings_def default_settings_def)

section \<open>Registration, then login\<close>

text \<open>
  Claim C1. For every username U and password P: if the store has no record for U, then
  registering (U, P) succeeds, returns the record of U with the digest of P and the salt,
  and stores it; in the store it leaves, registering U again with any password P' fails with
  UserAlreadyExistsError and leaves the store as it is, and logging in with (U, P) at any
  instant succeeds and returns a token: the one with the configured algorithm, the subject
  U, the expiry after the configured minutes and the signature of the secret key.
\<close>

theorem register_once_then_login:
  assumes "find_by_username s U = None"
  shows "(case create lib cfg s \<lparr>create_username = U, create_password = P\<rparr> of
            (r, s') \<Rightarrow>
              r = Inr \<lparr>username = U,
                       password_hash = sha256_hexdigest lib (P @ AUTH_PASSWORD_SALT cfg)\<rparr> \<and>
              find_by_username s' U =
                Some \<lparr>username = U,
                      password_hash = sha256_hexdigest lib (P @ AUTH_PASSWORD_SALT cfg)\<rparr> \<and>
              create lib cfg s' \<lparr>create_username = U, create_password = P'\<rparr> =
                (Inl UserAlreadyExistsError, s') \<and>
              login lib cfg now s' \<lparr>login_username = U, login_password = P\<rparr> =
                (Inr (Jws (AUTH_HASH_ALGORITHM cfg)
                       \<lparr>claims = [AUTH_ACCESS_TOKEN_USERNAME_FIELD cfg \<mapsto> U],
                        exp = Some (now + 60 * AUTH_ACCESS_TOKEN_EXPIRE_MINUTES cfg)\<rparr>
                       (sign lib (AUTH_HASH_ALGORITHM cfg) (AUTH_SECRET_KEY cfg)
                          \<lparr>claims = [AUTH_ACCESS_TOKEN_USERNAME_FIELD cfg \<mapsto> U],
                           exp = Some (now + 60 * AUTH_ACCESS_TOKEN_EXPIRE_MINUTES cfg)\<rparr>)),
                 s'))"
proof -
  from assms have absent: "rows s U = None"
    by (simp add: find_by_username_eq)
  have made: "create lib cfg s \<lparr>create_username = U, create_password = P\<rparr> =
      (Inr \<lparr>username = U,
            password_hash = sha256_hexdigest lib (P @ AUTH_PASSWORD_SALT cfg)\<rparr>,
       s\<lparr>rows := (rows s)(U \<mapsto> sha256_hexdigest lib (P @ AUTH_PASSWORD_SALT cfg))\<rparr>)"
    using absent by (simp add: create_eq get_password_hash_def)
  show ?thesis
    unfolding made
    by (simp add: create_eq login_eq find_by_username_eq get_password_hash_def
        create_access_token_def jwt_encode_def)
qed

text \<open>
  The theorem at alice with the password p@ss on the empty store, registered again with
  another password and logged in at the instant 0: the token expires at 86400.
\<close>

theorem register_once_then_login_witness:
  "find_by_username empty_session ''alice'' = None \<and>
   create example_lib example_settings empty_session
       \<lparr>create_username = ''alice'', create_password = ''p@ss''\<rparr> =
     (Inr \<lparr>username = ''alice'', password_hash = example_digest ''p@sssalt''\<rparr>,
      empty_session\<lparr>rows := [''alice'' \<mapsto> example_digest ''p@sssalt'']\<rparr>) \<and>
   find_by_username (empty_session\<lparr>rows := [''alice'' \<mapsto> example_digest ''p@sssalt'']\<rparr>)
       ''alice'' =
     Some \<lparr>username = ''alice'', password_hash = example_digest ''p@sssalt''\<rparr> \<and>
   create example_lib example_settings
       (empty_session\<lparr>rows := [''alice'' \<mapsto> example_digest ''p@sssalt'']\<rparr>)
       \<lparr>create_username = ''alice'', create_password = ''anything''\<rparr> =
     (Inl UserAlreadyExistsError,
      empty_session\<lparr>rows := [''alice'' \<mapsto> example_digest ''p@sssalt'']\<rparr>) \<and>
   login example_lib example_settings 0
       (empty_session\<lparr>rows := [''alice'' \<mapsto> example_digest ''p@sssalt'']\<rparr>)
       \<lparr>login_username = ''alice'', login_password = ''p@ss''\<rparr> =
     (Inr (Jws ''HS256'' \<lparr>claims = [''sub'' \<mapsto> ''alice''], exp = Some 86400\<rparr>
            (example_sign ''HS256'' ''secret''
               \<lparr>claims = [''sub'' \<mapsto> ''alice''], exp = Some 86400\<rparr>)),
      empty_session\<lparr>rows := [''alice'' \<mapsto> example_digest ''p@sssalt'']\<rparr>)"
proof -
  have h: "find_by_username empty_session ''alice'' = None"
    by (simp add: find_by_username_eq empty_session_def)
  have c: "create example_lib example_settings empty_session
       \<lparr>create_username = ''alice'', create_password = ''p@ss''\<rparr> =
     (Inr \<lparr>username = ''alice'', password_hash = example_digest ''p@sssalt''\<rparr>,
      empty_session\<lparr>rows := [''alice'' \<mapsto> example_digest ''p@sssalt'']\<rparr>)"
    by (simp add: create_eq empty_session_def example_lib_def example_settings_def
        default_settings_def get_password_hash_def)
  note inst = register_once_then_login
    [OF h, where lib = example_lib and cfg = example_settings and P = "''p@ss''"
       and P' = "''anything''" and now = 0]
  from inst [unfolded c] h c show ?thesis
    by (simp add: example_lib_def example_settings_def default_settings_def)
qed

section \<open>The three outcomes of login\<close>

text \<open>
  Claim C3. For every call of login with (U, P) at the instant now: if the store has no
  record for U it fails with UserDoesNotExistError; if it has one and the digest of P
  followed by the salt differs from the stored hash it fails with InvalidPasswordError; if
  that digest is the stored hash it succeeds and returns the token, signed under the
  configured algorithm and key, whose claims are the configured subject field with the
  value U and exp with the value now plus the configured minutes, in seconds.
\<close>

theorem login_cases:
  "(find_by_username s U = None \<longrightarrow>
      login lib cfg now s \<lparr>login_username = U, login_password = P\<rparr> =
        (Inl UserDoesNotExistError, s)) \<and>
   (find_by_username s U = Some user \<and>
    sha256_hexdigest lib (P @ AUTH_PASSWORD_SALT cfg) \<noteq> password_hash user \<longrightarrow>
      login lib cfg now s \<lparr>login_username = U, login_password = P\<rparr> =
        (Inl InvalidPasswordError, s)) \<and>
   (find_by_username s U = Some user \<and>
    sha256_hexdigest lib (P @ AUTH_PASSWORD_SALT cfg) = password_hash user \<longrightarrow>
      login lib cfg now s \<lparr>login_username = U, login_password = P\<rparr> =
        (Inr (Jws (AUTH_HASH_ALGORITHM cfg)
               \<lparr>claims = [AUTH_ACCESS_TOKEN_USERNAME_FIELD cfg \<mapsto> U],
                exp = Some (now + 60 * AUTH_ACCESS_TOKEN_EXPIRE_MINUTES cfg)\<rparr>
               (sign lib (AUTH_HASH_ALGORITHM cfg) (AUTH_SECRET_KEY cfg)
                  \<lparr>claims = [AUTH_ACCESS_TOKEN_USERNAME_FIELD cfg \<mapsto> U],
                   exp = Some (now + 60 * AUTH_ACCESS_TOKEN_EXPIRE_MINUTES cfg)\<rparr>)), s))"
  by (auto simp add: login_def verify_password_def get_password_hash_def
      create_access_token_def jwt_encode_def)

text \<open>
  The theorem on the example store: an unknown user, dave with a wrong password, and dave
  with the right one at the instant 0, whose token expires at 86400.
\<close>

theorem login_cases_witness:
  "login example_lib example_settings 0 example_session
       \<lparr>login_username = ''nobody'', login_password = ''x''\<rparr> =
     (Inl UserDoesNotExistError, example_session) \<and>
   login example_lib example_settings 0 example_session
       \<lparr>login_username = ''dave'', login_password = ''wrong''\<rparr> =
     (Inl InvalidPasswordError, example_session) \<and>
   login example_lib example_settings 0 example_session
       \<lparr>login_username = ''dave'', login_password = ''right''\<rparr> =
     (Inr (Jws ''HS256'' \<lparr>claims = [''sub'' \<mapsto> ''dave''], exp = Some 86400\<rparr>
            (example_sign ''HS256'' ''secret''
               \<lparr>claims = [''sub'' \<mapsto> ''dave''], exp = Some 86400\<rparr>)),
      example_session)"
proof -
  note th = login_cases
    [where s = example_session and lib = example_lib and cfg = example_settings and now = 0]
  have absent: "find_by_username example_session ''nobody'' = None"
    by (simp add: find_by_username_eq example_session_def)
  have present: "find_by_username example_session ''dave'' =
      Some \<lparr>username = ''dave'', password_hash = example_digest ''rightsalt''\<rparr>"
    by (simp add: find_by_username_eq example_session_def)
  have differs: "sha256_hexdigest example_lib (''wrong'' @ AUTH_PASSWORD_SALT example_settings) \<noteq>
      password_hash \<lparr>username = ''dave'', password_hash = example_digest ''rightsalt''\<rparr>"
    by (simp add: example_defs)
  have matches: "sha256_hexdigest example_lib (''right'' @ AUTH_PASSWORD_SALT example_settings) =
      password_hash \<lparr>username = ''dave'', password_hash = example_digest ''rightsalt''\<rparr>"
    by (simp add: example_defs)
  from th [where U = "''nobody''" and P = "''x''"] absent
  have 1: "login example_lib example_settings 0 example_session
       \<lparr>login_username = ''nobody'', login_password = ''x''\<rparr> =
     (Inl UserDoesNotExistError, example_session)"
    by blast
  from th [where U = "''dave''" and P = "''wrong''"] present differs
  have 2: "login example_lib example_settings 0 example_session
       \<lparr>login_username = ''dave'', login_password = ''wrong''\<rparr> =
     (Inl InvalidPasswordError, example_session)"
    by blast
  from th [where U = "''dave''" and P = "''right''"] present matches
  have 3: "login example_lib example_settings 0 example_session
       \<lparr>login_username = ''dave'', login_password = ''right''\<rparr> =
     (Inr (Jws (AUTH_HASH_ALGORITHM example_settings)
               \<lparr>claims = [AUTH_ACCESS_TOKEN_USERNAME_FIELD example_settings \<mapsto> ''dave''],
                exp = Some (0 + 60 * AUTH_ACCESS_TOKEN_EXPIRE_MINUTES example_settings)\<rparr>
               (sign example_lib (AUTH_HASH_ALGORITHM example_settings)
                  (AUTH_SECRET_KEY example_settings)
                  \<lparr>claims = [AUTH_ACCESS_TOKEN_USERNAME_FIELD example_settings \<mapsto> ''dave''],
                   exp = Some (0 + 60 * AUTH_ACCESS_TOKEN_EXPIRE_MINUTES example_settings)\<rparr>)),
      example_session)"
    by blast
  from 1 2 3 show ?thesis
    by (simp add: example_lib_def example_settings_def default_settings_def)
qed

section \<open>What each operation does to the store\<close>

text \<open>
  Claim C8. For every input, login and get_current return the session they were given:
  they read the store and write nothing, and no token is kept. When create succeeds, the
  username had no row, and the session it leaves is the one it was given with exactly this
  one row added: the username with the digest of the password and the salt.
\<close>

theorem reads_leave_store_register_writes_once:
  "snd (login lib cfg now s login_data) = s \<and>
   snd (get_current lib cfg now s tok) = s \<and>
   (\<forall>user s'. create lib cfg s create_data = (Inr user, s') \<longrightarrow>
      rows s (create_username create_data) = None \<and>
      s' = s\<lparr>rows := (rows s)(create_username create_data \<mapsto>
                get_password_hash lib cfg (create_password create_data))\<rparr>)"
  by (auto simp add: snd_login snd_get_current create_eq split: if_splits)

text \<open>
  The theorem on the example store: dave logs in and presents his token, and alice
  registers.
\<close>

theorem reads_leave_store_register_writes_once_witness:
  "snd (login example_lib example_settings 0 example_session
          \<lparr>login_username = ''dave'', login_password = ''right''\<rparr>) = example_session \<and>
   snd (get_current example_lib example_settings 0 example_session dave_token) =
     example_session \<and>
   create example_lib example_settings example_session
       \<lparr>create_username = ''alice'', create_password = ''p@ss''\<rparr> =
     (Inr \<lparr>username = ''alice'', password_hash = example_digest ''p@sssalt''\<rparr>,
      example_session\<lparr>rows :=
        (rows example_session)(''alice'' \<mapsto> example_digest ''p@sssalt'')\<rparr>) \<and>
   rows example_session ''alice'' = None"
proof -
  have c: "create example_lib example_settings example_session
       \<lparr>create_username = ''alice'', create_password = ''p@ss''\<rparr> =
     (Inr \<lparr>username = ''alice'', password_hash = example_digest ''p@sssalt''\<rparr>,
      example_session\<lparr>rows :=
        (rows example_session)(''alice'' \<mapsto> example_digest ''p@sssalt'')\<rparr>)"
    by (simp add: create_eq example_defs)
  from reads_leave_store_register_writes_once
    [where lib = example_lib and cfg = example_settings and now = 0 and s = example_session
       and login_data = "\<lparr>login_username = ''dave'', login_password = ''right''\<rparr>"
       and tok = dave_token
       and create_data = "\<lparr>create_username = ''alice'', create_password = ''p@ss''\<rparr>"] c
  show ?thesis by simp
qed

section \<open>The failures of get_current\<close>

text \<open>
  Claim C4. Whenever get_current fails, on any token, store and instant, the error is
  UserDoesNotExistError and no other. It fails so on a malformed token, on a token whose
  signature is not the one the secret key gives, on a token whose exp is the present instant
  or an earlier one (whatever its signature and subject), on a token without the subject
  field, and on a token whose subject has no record in the store.
\<close>

theorem get_current_fails_only_with_not_found:
  "(\<forall>e. fst (get_current lib cfg now s tok) = Inl e \<longrightarrow> e = UserDoesNotExistError) \<and>
   get_current lib cfg now s (Malformed raw) = (Inl UserDoesNotExistError, s) \<and>
   (sg \<noteq> sign lib a (AUTH_SECRET_KEY cfg) p \<longrightarrow>
      get_current lib cfg now s (Jws a p sg) = (Inl UserDoesNotExistError, s)) \<and>
   (exp p = Some e \<and> e \<le> now \<longrightarrow>
      get_current lib cfg now s (Jws a p sg) = (Inl UserDoesNotExistError, s)) \<and>
   (claims p (AUTH_ACCESS_TOKEN_USERNAME_FIELD cfg) = None \<longrightarrow>
      get_current lib cfg now s (Jws a p sg) = (Inl UserDoesNotExistError, s)) \<and>
   (claims p (AUTH_ACCESS_TOKEN_USERNAME_FIELD cfg) = Some name \<and>
    find_by_username s name = None \<longrightarrow>
      get_current lib cfg now s (Jws a p sg) = (Inl UserDoesNotExistError, s))"
proof (intro conjI allI impI)
  fix e' assume "fst (get_current lib cfg now s tok) = Inl e'"
  then show "e' = UserDoesNotExistError" by (rule get_current_error)
next
  show "get_current lib cfg now s (Malformed raw) = (Inl UserDoesNotExistError, s)"
    by (simp add: get_current_def jwt_decode_Malformed)
next
  assume "sg \<noteq> sign lib a (AUTH_SECRET_KEY cfg) p"
  then show "get_current lib cfg now s (Jws a p sg) = (Inl UserDoesNotExistError, s)"
    by (auto simp add: get_current_def jwt_decode_Jws)
next
  assume "exp p = Some e \<and> e \<le> now"
  then show "get_current lib cfg now s (Jws a p sg) = (Inl UserDoesNotExistError, s)"
    by (simp add: get_current_def jwt_decode_Jws)
next
  assume "claims p (AUTH_ACCESS_TOKEN_USERNAME_FIELD cfg) = None"
  then show "get_current lib cfg now s (Jws a p sg) = (Inl UserDoesNotExistError, s)"
    by (simp add: get_current_def jwt_decode_Jws split: option.split)
next
  assume "claims p (AUTH_ACCESS_TOKEN_USERNAME_FIELD cfg) = Some name \<and>
    find_by_username s name = None"
  then show "get_current lib cfg now s (Jws a p sg) = (Inl UserDoesNotExistError, s)"
    by (simp add: get_current_def jwt_decode_Jws split: option.split)
qed

text \<open>
  The theorem on the example store: a text that is no token, dave's claims under a forged
  signature, dave's own token at the instant of its expiry, a signed token without subject,
  and a signed token without expiry for a user the store does not have.
\<close>

theorem get_current_fails_only_with_not_found_witness:
  "get_current example_lib example_settings 0 example_session (Malformed ''not a token'') =
     (Inl UserDoesNotExistError, example_session) \<and>
   get_current example_lib example_settings 0 example_session
       (Jws ''HS256'' \<lparr>claims = [''sub'' \<mapsto> ''dave''], exp = Some 86400\<rparr> ''forged'') =
     (Inl UserDoesNotExistError, example_session) \<and>
   get_current example_lib example_settings 86400 example_session dave_token =
     (Inl UserDoesNotExistError, example_session) \<and>
   get_current example_lib example_settings 0 example_session
       (jwt_encode example_lib \<lparr>claims = Map.empty, exp = Some 86400\<rparr> ''secret'' ''HS256'') =
     (Inl UserDoesNotExistError, example_session) \<and>
   get_current example_lib example_settings 0 example_session
       (jwt_encode example_lib \<lparr>claims = [''sub'' \<mapsto> ''ghost''], exp = None\<rparr>
          ''secret'' ''HS256'') =
     (Inl UserDoesNotExistError, example_session)"
proof -
  note th = get_current_fails_only_with_not_found
    [where lib = example_lib and cfg = example_settings and s = example_session]
  have f: "''forged'' \<noteq> sign example_lib ''HS256'' (AUTH_SECRET_KEY example_settings)
      \<lparr>claims = [''sub'' \<mapsto> ''dave''], exp = Some 86400\<rparr>"
    by (simp add: example_defs)
  have e: "exp \<lparr>claims = [''sub'' \<mapsto> ''dave''], exp = Some 86400\<rparr> = Some 86400 \<and>
      (86400::int) \<le> 86400"
    by simp
  have n: "claims \<lparr>claims = Map.empty, exp = Some 86400\<rparr>
      (AUTH_ACCESS_TOKEN_USERNAME_FIELD example_settings) = None"
    by simp
  have g: "claims \<lparr>claims = [''sub'' \<mapsto> ''ghost''], exp = None\<rparr>
        (AUTH_ACCESS_TOKEN_USERNAME_FIELD example_settings) = Some ''ghost'' \<and>
      find_by_username example_session ''ghost'' = None"
    by (simp add: find_by_username_eq example_defs)
  from th [where now = 0 and raw = "''not a token''"]
  have 1: "get_current example_lib example_settings 0 example_session
       (Malformed ''not a token'') = (Inl UserDoesNotExistError, example_session)"
    by blast
  from th [where now = 0 and a = "''HS256''" and sg = "''forged''"
      and p = "\<lparr>claims = [''sub'' \<mapsto> ''dave''], exp = Some 86400\<rparr>"] f
  have 2: "get_current example_lib example_settings 0 example_session
       (Jws ''HS256'' \<lparr>claims = [''sub'' \<mapsto> ''dave''], exp = Some 86400\<rparr> ''forged'') =
     (Inl UserDoesNotExistError, example_session)"
    by blast
  from th [where now = 86400 and a = "''HS256''" and e = 86400
      and sg = "example_sign ''HS256'' ''secret''
        \<lparr>claims = [''sub'' \<mapsto> ''dave''], exp = Some 86400\<rparr>"
      and p = "\<lparr>claims = [''sub'' \<mapsto> ''dave''], exp = Some 86400\<rparr>"] e
  have 3: "get_current example_lib example_settings 86400 example_session dave_token =
     (Inl UserDoesNotExistError, example_session)"
    unfolding dave_token_eq by blast
  from th [where now = 0 and a = "''HS256''"
      and sg = "sign example_lib ''HS256'' ''secret''
        \<lparr>claims = Map.empty, exp = Some 86400\<rparr>"
      and p = "\<lparr>claims = Map.empty, exp = Some 86400\<rparr>"] n
  have 4: "get_current example_lib example_settings 0 example_session
       (jwt_encode example_lib \<lparr>claims = Map.empty, exp = Some 86400\<rparr> ''secret'' ''HS256'') =
     (Inl UserDoesNotExistError, example_session)"
    unfolding jwt_encode_def by blast
  from th [where now = 0 and a = "''HS256''" and name = "''ghost''"
      and sg = "sign example_lib ''HS256'' ''secret''
        \<lparr>claims = [''sub'' \<mapsto> ''ghost''], exp = None\<rparr>"
      and p = "\<lparr>claims = [''sub'' \<mapsto> ''ghost''], exp = None\<rparr>"] g
  have 5: "get_current example_lib example_settings 0 example_session
       (jwt_encode example_lib \<lparr>claims = [''sub'' \<mapsto> ''ghost''], exp = None\<rparr>
          ''secret'' ''HS256'') =
     (Inl UserDoesNotExistError, example_session)"
    unfolding jwt_encode_def by blast
  from 1 2 3 4 5 show ?thesis by simp
qed

section \<open>The empty subject\<close>

text \<open>
  Claim C9. For every token whose algorithm is the configured one, whose signature is the
  one the secret key gives and whose exp, if it has one, is still ahead, and whose subject
  field holds the empty string: get_current fails with UserDoesNotExistError on every
  store, also on one that holds a record under the empty username, so the store has no say
  in it. Hence no token at all makes get_current return a record whose username is empty.
\<close>

theorem empty_subject_never_resolves:
  "(a = AUTH_HASH_ALGORITHM cfg \<and> sg = sign lib a (AUTH_SECRET_KEY cfg) p \<and>
    (\<forall>e. exp p = Some e \<longrightarrow> now < e) \<and>
    claims p (AUTH_ACCESS_TOKEN_USERNAME_FIELD cfg) = Some [] \<longrightarrow>
      (\<forall>s. get_current lib cfg now s (Jws a p sg) = (Inl UserDoesNotExistError, s))) \<and>
   (\<forall>user. fst (get_current lib cfg now s tok) = Inr user \<longrightarrow> username user \<noteq> [])"
proof (intro conjI allI impI)
  fix s'
  assume h: "a = AUTH_HASH_ALGORITHM cfg \<and> sg = sign lib a (AUTH_SECRET_KEY cfg) p \<and>
    (\<forall>e. exp p = Some e \<longrightarrow> now < e) \<and>
    claims p (AUTH_ACCESS_TOKEN_USERNAME_FIELD cfg) = Some []"
  then have "jwt_decode lib now (Jws a p sg) (AUTH_SECRET_KEY cfg) [AUTH_HASH_ALGORITHM cfg] =
      Inr p"
    by (cases "exp p") (auto simp add: jwt_decode_Jws)
  with h show "get_current lib cfg now s' (Jws a p sg) = (Inl UserDoesNotExistError, s')"
    by (simp add: get_current_def)
next
  fix user
  assume "fst (get_current lib cfg now s tok) = Inr user"
  then show "username user \<noteq> []"
    by (auto simp add: get_current_eq split: sum.splits option.splits if_splits)
qed

text \<open>
  The theorem on the example store, which holds a record under the empty username: the
  token that login would issue for it is refused, and the record that dave's token resolves
  to has a username.
\<close>

theorem empty_subject_never_resolves_witness:
  "rows example_session [] = Some (example_digest ''pwsalt'') \<and>
   get_current example_lib example_settings 0 example_session
       (create_access_token example_lib example_settings 0 []) =
     (Inl UserDoesNotExistError, example_session) \<and>
   fst (get_current example_lib example_settings 0 example_session dave_token) =
     Inr \<lparr>username = ''dave'', password_hash = example_digest ''rightsalt''\<rparr> \<and>
   username \<lparr>username = ''dave'', password_hash = example_digest ''rightsalt''\<rparr> \<noteq> []"
proof -
  note th = empty_subject_never_resolves
    [where lib = example_lib and cfg = example_settings and now = 0]
  have h: "''HS256'' = AUTH_HASH_ALGORITHM example_settings \<and>
      example_sign ''HS256'' ''secret'' \<lparr>claims = [''sub'' \<mapsto> []], exp = Some 86400\<rparr> =
        sign example_lib ''HS256'' (AUTH_SECRET_KEY example_settings)
          \<lparr>claims = [''sub'' \<mapsto> []], exp = Some 86400\<rparr> \<and>
      (\<forall>e. exp \<lparr>claims = [''sub'' \<mapsto> []], exp = Some 86400\<rparr> = Some e \<longrightarrow> 0 < e) \<and>
      claims \<lparr>claims = [''sub'' \<mapsto> []], exp = Some 86400\<rparr>
        (AUTH_ACCESS_TOKEN_USERNAME_FIELD example_settings) = Some []"
    by (simp add: example_lib_def example_settings_def default_settings_def)
  have et: "create_access_token example_lib example_settings 0 [] =
      Jws ''HS256'' \<lparr>claims = [''sub'' \<mapsto> []], exp = Some 86400\<rparr>
        (example_sign ''HS256'' ''secret'' \<lparr>claims = [''sub'' \<mapsto> []], exp = Some 86400\<rparr>)"
    by (simp add: create_access_token_def jwt_encode_def example_lib_def
        example_settings_def default_settings_def)
  have r: "rows example_session [] = Some (example_digest ''pwsalt'')"
    by (simp add: example_session_def)
  have d: "fst (get_current example_lib example_settings 0 example_session dave_token) =
     Inr \<lparr>username = ''dave'', password_hash = example_digest ''rightsalt''\<rparr>"
    by (simp add: get_current_eq dave_token_eq jwt_decode_Jws example_lib_def
        example_settings_def default_settings_def example_session_def)
  from th [where a = "''HS256''"
      and p = "\<lparr>claims = [''sub'' \<mapsto> []], exp = Some 86400\<rparr>"
      and sg = "example_sign ''HS256'' ''secret''
        \<lparr>claims = [''sub'' \<mapsto> []], exp = Some 86400\<rparr>"] h
  have 1: "get_current example_lib example_settings 0 example_session
       (create_access_token example_lib example_settings 0 []) =
     (Inl UserDoesNotExistError, example_session)"
    unfolding et by blast
  from th [where s = example_session and tok = dave_token] d
  have 2: "username \<lparr>username = ''dave'', password_hash = example_digest ''rightsalt''\<rparr> \<noteq> []"
    by blast
  from r 1 d 2 show ?thesis by blast
qed

section \<open>From login to get_current\<close>

text \<open>
  Claim C2, as the code has it. If login with (U, P) at the instant now returns a token,
  U is not the empty string, and the token is presented to get_current on the same store
  at an instant before now plus the configured minutes, then get_current returns the
  stored record of U, whose username is U. For every token whose signature is not the one
  the secret key gives, and for every token whose subject names a user without record,
  get_current fails with UserDoesNotExistError.
\<close>

theorem login_token_resolves_to_user:
  "(fst (login lib cfg now s \<lparr>login_username = U, login_password = P\<rparr>) = Inr T \<and>
    U \<noteq> [] \<and> now' < now + 60 * AUTH_ACCESS_TOKEN_EXPIRE_MINUTES cfg \<longrightarrow>
      find_by_username s U =
        Some \<lparr>username = U, password_hash = get_password_hash lib cfg P\<rparr> \<and>
      get_current lib cfg now' s T =
        (Inr \<lparr>username = U, password_hash = get_password_hash lib cfg P\<rparr>, s)) \<and>
   (sg \<noteq> sign lib a (AUTH_SECRET_KEY cfg) p \<longrightarrow>
      get_current lib cfg now' s (Jws a p sg) = (Inl UserDoesNotExistError, s)) \<and>
   (claims p (AUTH_ACCESS_TOKEN_USERNAME_FIELD cfg) = Some name \<and>
    find_by_username s name = None \<longrightarrow>
      get_current lib cfg now' s (Jws a p sg) = (Inl UserDoesNotExistError, s))"
proof (intro conjI impI)
  assume h: "fst (login lib cfg now s \<lparr>login_username = U, login_password = P\<rparr>) = Inr T \<and>
    U \<noteq> [] \<and> now' < now + 60 * AUTH_ACCESS_TOKEN_EXPIRE_MINUTES cfg"
  then have stored: "rows s U = Some (get_password_hash lib cfg P)"
    and tok: "T = create_access_token lib cfg now U"
    by (auto simp add: login_eq split: option.splits if_splits)
  from stored show "find_by_username s U =
      Some \<lparr>username = U, password_hash = get_password_hash lib cfg P\<rparr>"
    by (simp add: find_by_username_eq)
  from h have "jwt_decode lib now' T (AUTH_SECRET_KEY cfg) [AUTH_HASH_ALGORITHM cfg] =
      Inr \<lparr>claims = [AUTH_ACCESS_TOKEN_USERNAME_FIELD cfg \<mapsto> U],
           exp = Some (now + 60 * AUTH_ACCESS_TOKEN_EXPIRE_MINUTES cfg)\<rparr>"
    by (simp add: tok create_access_token_def jwt_encode_def jwt_decode_Jws)
  with h stored show "get_current lib cfg now' s T =
      (Inr \<lparr>username = U, password_hash = get_password_hash lib cfg P\<rparr>, s)"
    by (simp add: get_current_eq)
next
  assume "sg \<noteq> sign lib a (AUTH_SECRET_KEY cfg) p"
  then show "get_current lib cfg now' s (Jws a p sg) = (Inl UserDoesNotExistError, s)"
    by (auto simp add: get_current_def jwt_decode_Jws)
next
  assume "claims p (AUTH_ACCESS_TOKEN_USERNAME_FIELD cfg) = Some name \<and>
    find_by_username s name = None"
  then show "get_current lib cfg now' s (Jws a p sg) = (Inl UserDoesNotExistError, s)"
    by (simp add: get_current_def jwt_decode_Jws split: option.split)
qed

text \<open>
  The theorem on the example store: dave logs in at 0 and presents the token one second
  before it expires; his claims under a forged signature and the token of a user the store
  does not have are refused.
\<close>

theorem login_token_resolves_to_user_witness:
  "fst (login example_lib example_settings 0 example_session
          \<lparr>login_username = ''dave'', login_password = ''right''\<rparr>) = Inr dave_token \<and>
   get_current example_lib example_settings 86399 example_session dave_token =
     (Inr \<lparr>username = ''dave'',
           password_hash = get_password_hash example_lib example_settings ''right''\<rparr>,
      example_session) \<and>
   get_current example_lib example_settings 86399 example_session
       (Jws ''HS256'' \<lparr>claims = [''sub'' \<mapsto> ''dave''], exp = Some 86400\<rparr> ''forged'') =
     (Inl UserDoesNotExistError, example_session) \<and>
   get_current example_lib example_settings 86399 example_session
       (create_access_token example_lib example_settings 0 ''ghost'') =
     (Inl UserDoesNotExistError, example_session)"
proof -
  note th = login_token_resolves_to_user
    [where lib = example_lib and cfg = example_settings and s = example_session
       and now' = 86399]
  have l: "fst (login example_lib example_settings 0 example_session
          \<lparr>login_username = ''dave'', login_password = ''right''\<rparr>) = Inr dave_token"
    by (simp add: login_eq dave_token_def example_defs)
  have t: "(86399::int) < 0 + 60 * AUTH_ACCESS_TOKEN_EXPIRE_MINUTES example_settings"
    by (simp add: example_settings_def default_settings_def)
  have d: "''dave'' \<noteq> []" by simp
  have f: "''forged'' \<noteq> sign example_lib ''HS256'' (AUTH_SECRET_KEY example_settings)
      \<lparr>claims = [''sub'' \<mapsto> ''dave''], exp = Some 86400\<rparr>"
    by (simp add: example_defs)
  have g: "claims \<lparr>claims = [''sub'' \<mapsto> ''ghost''], exp = Some 86400\<rparr>
        (AUTH_ACCESS_TOKEN_USERNAME_FIELD example_settings) = Some ''ghost'' \<and>
      find_by_username example_session ''ghost'' = None"
    by (simp add: find_by_username_eq example_defs)
  have gt: "create_access_token example_lib example_settings 0 ''ghost'' =
      Jws ''HS256'' \<lparr>claims = [''sub'' \<mapsto> ''ghost''], exp = Some 86400\<rparr>
        (example_sign ''HS256'' ''secret''
           \<lparr>claims = [''sub'' \<mapsto> ''ghost''], exp = Some 86400\<rparr>)"
    by (simp add: create_access_token_def jwt_encode_def example_lib_def
        example_settings_def default_settings_def)
  from th [where now = 0 and U = "''dave''" and P = "''right''" and T = dave_token] l t d
  have 1: "get_current example_lib example_settings 86399 example_session dave_token =
     (Inr \<lparr>username = ''dave'',
           password_hash = get_password_hash example_lib example_settings ''right''\<rparr>,
      example_session)"
    by blast
  from th [where a = "''HS256''" and sg = "''forged''"
      and p = "\<lparr>claims = [''sub'' \<mapsto> ''dave''], exp = Some 86400\<rparr>"] f
  have 2: "get_current example_lib example_settings 86399 example_session
       (Jws ''HS256'' \<lparr>claims = [''sub'' \<mapsto> ''dave''], exp = Some 86400\<rparr> ''forged'') =
     (Inl UserDoesNotExistError, example_session)"
    by blast
  from th [where a = "''HS256''" and name = "''ghost''"
      and sg = "example_sign ''HS256'' ''secret''
        \<lparr>claims = [''sub'' \<mapsto> ''ghost''], exp = Some 86400\<rparr>"
      and p = "\<lparr>claims = [''sub'' \<mapsto> ''ghost''], exp = Some 86400\<rparr>"] g
  have 3: "get_current example_lib example_settings 86399 example_session
       (create_access_token example_lib example_settings 0 ''ghost'') =
     (Inl UserDoesNotExistError, example_session)"
    unfolding gt by blast
  from l 1 2 3 show ?thesis by simp
qed

text \<open>
  Claim C2 as the spec words it, for every registered user and with no word on the instant,
  fails twice. The empty username registers and logs in, and get_current refuses the token
  it was given at the very instant of the login. And the token alice gets at 0 is refused
  at 86400, one day later, with her record still in the store.
\<close>

theorem login_token_not_always_resolved:
  "create example_lib example_settings empty_session
       \<lparr>create_username = [], create_password = ''pw''\<rparr> =
     (Inr \<lparr>username = [], password_hash = example_digest ''pwsalt''\<rparr>,
      empty_session\<lparr>rows := [[] \<mapsto> example_digest ''pwsalt'']\<rparr>) \<and>
   login example_lib example_settings 0
       (empty_session\<lparr>rows := [[] \<mapsto> example_digest ''pwsalt'']\<rparr>)
       \<lparr>login_username = [], login_password = ''pw''\<rparr> =
     (Inr (create_access_token example_lib example_settings 0 []),
      empty_session\<lparr>rows := [[] \<mapsto> example_digest ''pwsalt'']\<rparr>) \<and>
   get_current example_lib example_settings 0
       (empty_session\<lparr>rows := [[] \<mapsto> example_digest ''pwsalt'']\<rparr>)
       (create_access_token example_lib example_settings 0 []) =
     (Inl UserDoesNotExistError,
      empty_session\<lparr>rows := [[] \<mapsto> example_digest ''pwsalt'']\<rparr>) \<and>
   login example_lib example_settings 0
       (empty_session\<lparr>rows := [''alice'' \<mapsto> example_digest ''p@sssalt'']\<rparr>)
       \<lparr>login_username = ''alice'', login_password = ''p@ss''\<rparr> =
     (Inr (create_access_token example_lib example_settings 0 ''alice''),
      empty_session\<lparr>rows := [''alice'' \<mapsto> example_digest ''p@sssalt'']\<rparr>) \<and>
   get_current example_lib example_settings 86400
       (empty_session\<lparr>rows := [''alice'' \<mapsto> example_digest ''p@sssalt'']\<rparr>)
       (create_access_token example_lib example_settings 0 ''alice'') =
     (Inl UserDoesNotExistError,
      empty_session\<lparr>rows := [''alice'' \<mapsto> example_digest ''p@sssalt'']\<rparr>)"
  by (simp add: create_eq login_eq get_current_eq create_access_token_def jwt_encode_def
      jwt_decode_Jws example_lib_def example_settings_def default_settings_def
      empty_session_def get_password_hash_def)

section \<open>The login handlers on a failed login\<close>

text \<open>
  A wrong password is answered as it should be: for every login request, form-encoded or
  JSON, whose username has a record and whose password does not give the stored hash, the
  handler raises the HTTP error 401 with the detail Incorrect username or password and the
  header WWW-Authenticate: Bearer.
\<close>

lemma login_handlers_reject_wrong_password:
  "find_by_username s U = Some user \<and>
   get_password_hash lib cfg P \<noteq> password_hash user \<longrightarrow>
     oauth2_login lib cfg now s \<lparr>form_username = U, form_password = P\<rparr> =
       (Raised \<lparr>status_code = 401, detail = ''Incorrect username or password'',
                headers = [(''WWW-Authenticate'', ''Bearer'')]\<rparr>, s) \<and>
     json_login lib cfg now s \<lparr>request_username = U, request_password = P\<rparr> =
       (Raised \<lparr>status_code = 401, detail = ''Incorrect username or password'',
                headers = [(''WWW-Authenticate'', ''Bearer'')]\<rparr>, s)"
  by (auto simp add: oauth2_login_def json_login_def login_def verify_password_def)

text \<open>
  The first \<^verbatim>\<open>except\<close> clause of both handlers never runs: login does not raise
  UserAlreadyExistsError. The error it raises for a username without record is caught by
  neither clause, on any store.
\<close>

lemma login_never_already_exists:
  "fst (login lib cfg now s login_data) \<noteq> Inl UserAlreadyExistsError"
  by (simp add: login_eq split: option.split)

lemma login_handlers_unknown_user:
  assumes "find_by_username s U = None"
  shows "oauth2_login lib cfg now s \<lparr>form_username = U, form_password = P\<rparr> =
           (Unhandled UserDoesNotExistError, s) \<and>
         json_login lib cfg now s \<lparr>request_username = U, request_password = P\<rparr> =
           (Unhandled UserDoesNotExistError, s)"
  using assms by (simp add: oauth2_login_def json_login_def login_def)

text \<open>
  Claim C6 asks that a login request whose username has no record is rejected with the
  authentication challenge and its generic message, as one with a wrong password is, and
  that the domain error never leaves the handler. The code does not do it: at the request of
  nobody with the password x on the empty store, both handlers let UserDoesNotExistError
  through. They catch UserAlreadyExistsError, with the detail User with this username does
  not exist., where the error of the unknown user is meant.
\<close>

theorem login_handlers_unknown_user_escapes:
  "oauth2_login example_lib example_settings 0 empty_session
       \<lparr>form_username = ''nobody'', form_password = ''x''\<rparr> =
     (Unhandled UserDoesNotExistError, empty_session) \<and>
   json_login example_lib example_settings 0 empty_session
       \<lparr>request_username = ''nobody'', request_password = ''x''\<rparr> =
     (Unhandled UserDoesNotExistError, empty_session)"
  by (simp add: oauth2_login_def json_login_def login_eq empty_session_def)

section \<open>The records of a reachable store\<close>

lemma serve_rows:
  assumes "rows (serve lib cfg s req) u = Some h"
  shows "rows s u = Some h \<or>
     (\<exists>d. req = Register d \<and> create_username d = u \<and>
          h = get_password_hash lib cfg (create_password d))"
  using assms
  by (cases req) (auto simp add: serve_def create_eq snd_login snd_get_current split: if_splits)

lemma run_rows:
  assumes "rows (run lib cfg s reqs) u = Some h"
  shows "rows s u = Some h \<or>
     (\<exists>d. Register d \<in> set reqs \<and> create_username d = u \<and>
          h = get_password_hash lib cfg (create_password d))"
  using assms
proof (induction reqs arbitrary: s)
  case Nil
  then show ?case by (simp add: run_def)
next
  case (Cons req reqs)
  from Cons.prems have "rows (run lib cfg (serve lib cfg s req) reqs) u = Some h"
    by (simp add: run_def)
  from Cons.IH [OF this] show ?case
  proof
    assume "rows (serve lib cfg s req) u = Some h"
    from serve_rows [OF this] show ?thesis by auto
  next
    assume "\<exists>d. Register d \<in> set reqs \<and> create_username d = u \<and>
      h = get_password_hash lib cfg (create_password d)"
    then show ?thesis by auto
  qed
qed

text \<open>
  Claim C7, as the code has it. In every store reached from the empty one by operations of
  the aggregate, every record was persisted by a registration of the run: its username is
  the username of that request, whatever string that is, and its hash is the digest of that
  request's password and the salt. Nothing asks the username to be non-empty.
\<close>

theorem stored_records_come_from_registrations:
  "find_by_username (run lib cfg empty_session reqs) u = Some user \<longrightarrow>
     username user = u \<and>
     (\<exists>d. Register d \<in> set reqs \<and> create_username d = u \<and>
          password_hash user = get_password_hash lib cfg (create_password d))"
proof
  assume "find_by_username (run lib cfg empty_session reqs) u = Some user"
  then obtain h where h: "rows (run lib cfg empty_session reqs) u = Some h"
    and user: "user = \<lparr>username = u, password_hash = h\<rparr>"
    by (auto simp add: find_by_username_eq)
  from run_rows [OF h] have "\<exists>d. Register d \<in> set reqs \<and> create_username d = u \<and>
      h = get_password_hash lib cfg (create_password d)"
    by (simp add: empty_session_def)
  with user show "username user = u \<and>
     (\<exists>d. Register d \<in> set reqs \<and> create_username d = u \<and>
          password_hash user = get_password_hash lib cfg (create_password d))"
    by simp
qed

text \<open>The theorem on the run in which alice registers and logs in.\<close>

theorem stored_records_come_from_registrations_witness:
  "find_by_username
     (run example_lib example_settings empty_session
        [Register \<lparr>create_username = ''alice'', create_password = ''p@ss''\<rparr>,
         Login 0 \<lparr>login_username = ''alice'', login_password = ''p@ss''\<rparr>]) ''alice'' =
     Some \<lparr>username = ''alice'', password_hash = example_digest ''p@sssalt''\<rparr> \<and>
   (\<exists>d. Register d \<in> set [Register \<lparr>create_username = ''alice'', create_password = ''p@ss''\<rparr>,
         Login 0 \<lparr>login_username = ''alice'', login_password = ''p@ss''\<rparr>] \<and>
        create_username d = ''alice'' \<and>
        example_digest ''p@sssalt'' =
          get_password_hash example_lib example_settings (create_password d))"
proof -
  have r: "find_by_username
     (run example_lib example_settings empty_session
        [Register \<lparr>create_username = ''alice'', create_password = ''p@ss''\<rparr>,
         Login 0 \<lparr>login_username = ''alice'', login_password = ''p@ss''\<rparr>]) ''alice'' =
     Some \<lparr>username = ''alice'', password_hash = example_digest ''p@sssalt''\<rparr>"
    by (simp add: run_def serve_def create_eq snd_login find_by_username_eq example_lib_def
        example_settings_def default_settings_def empty_session_def get_password_hash_def)
  from stored_records_come_from_registrations
    [where lib = example_lib and cfg = example_settings and u = "''alice''"
       and reqs = "[Register \<lparr>create_username = ''alice'', create_password = ''p@ss''\<rparr>,
         Login 0 \<lparr>login_username = ''alice'', login_password = ''p@ss''\<rparr>]"
       and user = "\<lparr>username = ''alice'', password_hash = example_digest ''p@sssalt''\<rparr>"] r
  show ?thesis by simp
qed

text \<open>
  Claim C7 as the spec words it fails: a registration with the empty username succeeds on
  the empty store, and the store it leaves holds a record whose username is the empty
  string.
\<close>

theorem empty_username_is_stored:
  "find_by_username
     (run example_lib example_settings empty_session
        [Register \<lparr>create_username = [], create_password = ''pw''\<rparr>]) [] =
     Some \<lparr>username = [], password_hash = example_digest ''pwsalt''\<rparr>"
  by (simp add: run_def serve_def create_eq find_by_username_eq example_lib_def
      example_settings_def default_settings_def empty_session_def get_password_hash_def)

section \<open>A create that fails\<close>

text \<open>
  Claim C10, as the code has it. \<^verbatim>\<open>BaseRepository.create\<close> fails with AlreadyExists only.
  When its own lookup finds the key, it leaves the session as it was. When the check at
  write time rejects the key, which another transaction has inserted since the lookup, the
  session is rolled back before AlreadyExists is raised: the rows seen through the store
  are then the committed ones, none of them written by this call. The rollback is of the
  whole transaction, so the rows seen through the store are what they were without this
  call when the transaction had flushed nothing of its own before.
\<close>

theorem failed_create_is_rolled_back:
  "repo_create_env others s dto = (Inl e, s') \<longrightarrow>
     e = UserAlreadyExistsError \<and>
     (rows s (username dto) \<noteq> None \<longrightarrow> s' = s) \<and>
     (rows s (username dto) = None \<longrightarrow>
        username dto \<in> dom others \<and>
        s' = rollback (concurrent_commit others s) \<and>
        rows s' = committed s ++ others) \<and>
     (rows s = committed s \<longrightarrow> s' = s \<or> s' = concurrent_commit others s)"
proof
  assume failed: "repo_create_env others s dto = (Inl e, s')"
  show "e = UserAlreadyExistsError \<and>
     (rows s (username dto) \<noteq> None \<longrightarrow> s' = s) \<and>
     (rows s (username dto) = None \<longrightarrow>
        username dto \<in> dom others \<and>
        s' = rollback (concurrent_commit others s) \<and>
        rows s' = committed s ++ others) \<and>
     (rows s = committed s \<longrightarrow> s' = s \<or> s' = concurrent_commit others s)"
  proof (cases "rows s (username dto) = None")
    case False
    with failed show ?thesis
      by (auto simp add: repo_create_env_eq)
  next
    case True
    with failed have dup: "username dto \<in> dom others"
      and rolled: "s' = rollback (concurrent_commit others s)"
      and err: "e = UserAlreadyExistsError"
      by (auto simp add: repo_create_env_eq split: if_splits)
    from rolled have "rows s' = committed s ++ others"
      by (simp add: rollback_def concurrent_commit_def)
    moreover have "rows s = committed s \<longrightarrow> s' = concurrent_commit others s"
      using rolled by (simp add: rollback_clean)
    ultimately show ?thesis
      using True dup rolled err by simp
  qed
qed

text \<open>
  The theorem with bob arriving at write time. On \<open>dave_committed\<close>, a create of dave
  fails at the lookup and a create of bob at the flush, and the session is then as the other
  transaction left it. On \<open>alice_session\<close>, a create of bob fails at the flush and the rows
  are the committed ones.
\<close>

theorem failed_create_is_rolled_back_witness:
  "repo_create_env [''bob'' \<mapsto> ''h2''] dave_committed
       \<lparr>username = ''dave'', password_hash = ''h4''\<rparr> =
     (Inl UserAlreadyExistsError, dave_committed) \<and>
   repo_create_env [''bob'' \<mapsto> ''h2''] dave_committed
       \<lparr>username = ''bob'', password_hash = ''h3''\<rparr> =
     (Inl UserAlreadyExistsError, concurrent_commit [''bob'' \<mapsto> ''h2''] dave_committed) \<and>
   rows (concurrent_commit [''bob'' \<mapsto> ''h2''] dave_committed) ''bob'' = Some ''h2'' \<and>
   repo_create_env [''bob'' \<mapsto> ''h2''] alice_session
       \<lparr>username = ''bob'', password_hash = ''h3''\<rparr> =
     (Inl UserAlreadyExistsError,
      rollback (concurrent_commit [''bob'' \<mapsto> ''h2''] alice_session)) \<and>
   rows (rollback (concurrent_commit [''bob'' \<mapsto> ''h2''] alice_session)) =
     committed alice_session ++ [''bob'' \<mapsto> ''h2'']"
proof -
  note th = failed_create_is_rolled_back [where others = "[''bob'' \<mapsto> ''h2'']"]
  have clean: "rows dave_committed = committed dave_committed"
    by (simp add: dave_committed_def)
  have absent: "rows dave_committed ''bob'' = None" "rows alice_session ''bob'' = None"
    by (simp_all add: dave_committed_def alice_session_def empty_session_def)
  have 1: "repo_create_env [''bob'' \<mapsto> ''h2''] dave_committed
       \<lparr>username = ''dave'', password_hash = ''h4''\<rparr> =
     (Inl UserAlreadyExistsError, dave_committed)"
    by (simp add: repo_create_env_eq dave_committed_def)
  have 2: "repo_create_env [''bob'' \<mapsto> ''h2''] dave_committed
       \<lparr>username = ''bob'', password_hash = ''h3''\<rparr> =
     (Inl UserAlreadyExistsError,
      rollback (concurrent_commit [''bob'' \<mapsto> ''h2''] dave_committed))"
    by (simp add: repo_create_env_eq dave_committed_def)
  have 3: "repo_create_env [''bob'' \<mapsto> ''h2''] alice_session
       \<lparr>username = ''bob'', password_hash = ''h3''\<rparr> =
     (Inl UserAlreadyExistsError,
      rollback (concurrent_commit [''bob'' \<mapsto> ''h2''] alice_session))"
    by (simp add: repo_create_env_eq alice_session_def empty_session_def)
  from th [where s = dave_committed
      and dto = "\<lparr>username = ''bob'', password_hash = ''h3''\<rparr>"
      and e = UserAlreadyExistsError
      and s' = "rollback (concurrent_commit [''bob'' \<mapsto> ''h2''] dave_committed)"]
    2 clean absent
  have 4: "rollback (concurrent_commit [''bob'' \<mapsto> ''h2''] dave_committed) =
      concurrent_commit [''bob'' \<mapsto> ''h2''] dave_committed"
    by (auto simp add: concurrent_commit_def dave_committed_def rollback_def)
  from th [where s = alice_session
      and dto = "\<lparr>username = ''bob'', password_hash = ''h3''\<rparr>"
      and e = UserAlreadyExistsError
      and s' = "rollback (concurrent_commit [''bob'' \<mapsto> ''h2''] alice_session)"] 3 absent
  have 5: "rows (rollback (concurrent_commit [''bob'' \<mapsto> ''h2''] alice_session)) =
     committed alice_session ++ [''bob'' \<mapsto> ''h2'']"
    by simp
  have 6: "rows (concurrent_commit [''bob'' \<mapsto> ''h2''] dave_committed) ''bob'' = Some ''h2''"
    by (simp add: concurrent_commit_def)
  from 1 2 3 4 5 6 show ?thesis by simp
qed

text \<open>
  Claim C10 as the spec words it, with the state seen through the store unchanged whenever
  create fails, does not hold. A create of alice on the empty store flushes her row, which
  the store then returns, also after bob's row has arrived from another transaction. A
  create of bob in the same transaction, rejected at write time, rolls the transaction
  back: it fails with UserAlreadyExistsError, and the store no longer returns alice.
\<close>

theorem failed_create_discards_earlier_rows:
  "repo_create empty_session \<lparr>username = ''alice'', password_hash = ''h1''\<rparr> =
     (Inr \<lparr>username = ''alice'', password_hash = ''h1''\<rparr>, alice_session) \<and>
   get_by_id alice_session ''alice'' =
     Some \<lparr>username = ''alice'', password_hash = ''h1''\<rparr> \<and>
   get_by_id (concurrent_commit [''bob'' \<mapsto> ''h2''] alice_session) ''alice'' =
     Some \<lparr>username = ''alice'', password_hash = ''h1''\<rparr> \<and>
   fst (repo_create_env [''bob'' \<mapsto> ''h2''] alice_session
          \<lparr>username = ''bob'', password_hash = ''h3''\<rparr>) = Inl UserAlreadyExistsError \<and>
   get_by_id (snd (repo_create_env [''bob'' \<mapsto> ''h2''] alice_session
          \<lparr>username = ''bob'', password_hash = ''h3''\<rparr>)) ''alice'' = None"
  by (simp add: repo_create_eq repo_create_env_eq get_by_id_eq alice_session_def
      empty_session_def concurrent_commit_def rollback_def)

end
